theory Spec2Isabelle
  imports Complex_Main
begin

section \<open>Tensors\<close>

text \<open>
  A tensor is the list of its elements; every operation of the optimizers is elementwise,
  so the shape plays no part beyond the number of elements. Elements are real numbers:
  the floating-point rounding, infinities and NaN of the tensor library are not modelled.
  A gradient has the shape of its parameter (the tensor library refuses the assignment of
  any other), so the elementwise operations below are only ever applied to lists of the
  same length.
\<close>

type_synonym tensor = "real list"

definition zeros_like :: "tensor \<Rightarrow> tensor" where
  "zeros_like t = replicate (length t) 0"

definition full_like :: "tensor \<Rightarrow> real \<Rightarrow> tensor" where
  "full_like t fill_value = replicate (length t) fill_value"

text \<open>\<^verbatim>\<open>t.mul_(c)\<close> with a scalar.\<close>

definition tensor_mul :: "tensor \<Rightarrow> real \<Rightarrow> tensor" where
  "tensor_mul t c = map (\<lambda>x. x * c) t"

text \<open>\<^verbatim>\<open>t.add_(u, alpha=a)\<close>.\<close>

definition tensor_add :: "tensor \<Rightarrow> tensor \<Rightarrow> real \<Rightarrow> tensor" where
  "tensor_add t u alpha = map2 (\<lambda>x y. x + alpha * y) t u"

text \<open>\<^verbatim>\<open>t.add(c)\<close> with a scalar.\<close>

definition tensor_add_scalar :: "tensor \<Rightarrow> real \<Rightarrow> tensor" where
  "tensor_add_scalar t c = map (\<lambda>x. x + c) t"

text \<open>\<^verbatim>\<open>t.addcmul_(a, b, value=c)\<close>.\<close>

definition tensor_addcmul :: "tensor \<Rightarrow> tensor \<Rightarrow> tensor \<Rightarrow> real \<Rightarrow> tensor" where
  "tensor_addcmul t a b c = map2 (\<lambda>x (y, z). x + c * (y * z)) t (zip a b)"

text \<open>\<^verbatim>\<open>t.addcdiv_(a, b, value=c)\<close>.\<close>

definition tensor_addcdiv :: "tensor \<Rightarrow> tensor \<Rightarrow> tensor \<Rightarrow> real \<Rightarrow> tensor" where
  "tensor_addcdiv t a b c = map2 (\<lambda>x (y, z). x + c * (y / z)) t (zip a b)"

definition tensor_sqrt :: "tensor \<Rightarrow> tensor" where
  "tensor_sqrt t = map sqrt t"

definition tensor_div_scalar :: "tensor \<Rightarrow> real \<Rightarrow> tensor" where
  "tensor_div_scalar t c = map (\<lambda>x. x / c) t"

definition tensor_div :: "tensor \<Rightarrow> tensor \<Rightarrow> tensor" where
  "tensor_div t u = map2 (\<lambda>x y. x / y) t u"

definition tensor_times :: "tensor \<Rightarrow> tensor \<Rightarrow> tensor" where
  "tensor_times t u = map2 (\<lambda>x y. x * y) t u"

definition tensor_sub :: "tensor \<Rightarrow> tensor \<Rightarrow> tensor" where
  "tensor_sub t u = map2 (\<lambda>x y. x - y) t u"

definition tensor_max :: "tensor \<Rightarrow> tensor \<Rightarrow> tensor" where
  "tensor_max t u = map2 max t u"

definition tensor_sign :: "tensor \<Rightarrow> tensor" where
  "tensor_sign t = map sgn t"

definition tensor_neg :: "tensor \<Rightarrow> tensor" where
  "tensor_neg t = map uminus t"

text \<open>\<^verbatim>\<open>t.clamp_(lo, hi)\<close>: the lower limit is applied first, so the upper one wins
  when the limits cross.\<close>

definition clamp :: "real \<Rightarrow> real \<Rightarrow> real \<Rightarrow> real" where
  "clamp x lo hi = min (max x lo) hi"

definition tensor_clamp :: "tensor \<Rightarrow> real \<Rightarrow> real \<Rightarrow> tensor" where
  "tensor_clamp t lo hi = map (\<lambda>x. clamp x lo hi) t"

section \<open>Errors and scalar arithmetic\<close>

datatype error = NoSparseGradientError | KeyError | ValueError | ZeroDivisionError

text \<open>\<^verbatim>\<open>math.sqrt\<close> raises on a negative argument; a division of two Python floats
  raises on a zero divisor.\<close>

definition math_sqrt :: "real \<Rightarrow> error + real" where
  "math_sqrt x = (if x < 0 then Inl ValueError else Inr (sqrt x))"

definition float_div :: "real \<Rightarrow> real \<Rightarrow> error + real" where
  "float_div a b = (if b = 0 then Inl ZeroDivisionError else Inr (a / b))"

section \<open>Data model\<close>

text \<open>A gradient: its layout flag and the dense values it stands for.\<close>

record gradient =
  is_sparse :: bool
  to_dense :: tensor

text \<open>A parameter object: \<open>pid\<close> is its identity (the key of the state dictionary),
  \<open>data\<close> its value and \<open>grad\<close> its gradient, \<open>None\<close> when absent.\<close>

record parameter =
  pid :: nat
  data :: tensor
  grad :: "gradient option"

text \<open>The state dictionary of one parameter; a field is \<open>None\<close> when the key is
  absent. \<open>state_step\<close> is the key \<^verbatim>\<open>'step'\<close> of the per-parameter state.\<close>

record param_state =
  state_step :: "nat option"
  exp_avg :: "tensor option"
  exp_avg_sq :: "tensor option"
  max_exp_avg_sq :: "tensor option"

definition empty_state :: param_state where
  "empty_state = \<lparr>state_step = None, exp_avg = None, exp_avg_sq = None, max_exp_avg_sq = None\<rparr>"

definition len_state :: "param_state \<Rightarrow> nat" where
  "len_state s = (if state_step s = None then 0 else 1) + (if exp_avg s = None then 0 else 1)
     + (if exp_avg_sq s = None then 0 else 1) + (if max_exp_avg_sq s = None then 0 else 1)"

text \<open>
  A parameter group: the hyperparameters of both optimizers (\<open>final_lr\<close>, \<open>gamma\<close> and
  \<open>ams_bound\<close> are read by AdaBound only, \<open>initial_accumulator\<close> by Yogi only) and the
  group's step counter, absent until the first step. For Yogi, \<open>adam_debias\<close> is the
  value of \<^verbatim>\<open>group.get('adam_debias', False)\<close>.
\<close>

record param_group =
  params :: "parameter list"
  lr :: real
  betas :: "real \<times> real"
  final_lr :: real
  gamma :: real
  weight_decay :: real
  weight_decouple :: bool
  fixed_decay :: bool
  ams_bound :: bool
  adam_debias :: bool
  initial_accumulator :: real
  eps :: real
  step :: "nat option"

text \<open>The optimizer base class: the groups and the state dictionary, keyed by parameter
  identity. The dictionary is a \<^verbatim>\<open>defaultdict\<close>: reading a missing key stores and
  returns an empty state.\<close>

record optimizer =
  param_groups :: "param_group list"
  state :: "nat \<rightharpoonup> param_state"

record AdaBound = optimizer +
  base_lrs :: "real list"

record Yogi = optimizer +
  maximize :: bool

definition get_state :: "(nat \<rightharpoonup> param_state) \<Rightarrow> parameter \<Rightarrow> param_state" where
  "get_state st p = (case st (pid p) of None \<Rightarrow> empty_state | Some s \<Rightarrow> s)"

section \<open>AdaBound\<close>

text \<open>\<^verbatim>\<open>AdaBound.reset\<close>: every parameter of every group.\<close>

definition reset_state :: "param_group \<Rightarrow> parameter \<Rightarrow> param_state \<Rightarrow> param_state" where
  "reset_state g p s =
     (let s1 = s\<lparr>state_step := Some 0, exp_avg := Some (zeros_like (data p)),
                 exp_avg_sq := Some (zeros_like (data p))\<rparr>
      in if ams_bound g then s1\<lparr>max_exp_avg_sq := Some (zeros_like (data p))\<rparr> else s1)"

fun reset_params :: "param_group \<Rightarrow> parameter list \<Rightarrow> (nat \<rightharpoonup> param_state) \<Rightarrow> (nat \<rightharpoonup> param_state)" where
  "reset_params g [] st = st"
| "reset_params g (p # ps) st = reset_params g ps (st(pid p \<mapsto> reset_state g p (get_state st p)))"

fun reset_groups :: "param_group list \<Rightarrow> (nat \<rightharpoonup> param_state) \<Rightarrow> (nat \<rightharpoonup> param_state)" where
  "reset_groups [] st = st"
| "reset_groups (g # gs) st = reset_groups gs (reset_params g (params g) st)"

definition AdaBound_reset :: "'a AdaBound_scheme \<Rightarrow> 'a AdaBound_scheme" where
  "AdaBound_reset opt = opt\<lparr>state := reset_groups (param_groups opt) (state opt)\<rparr>"

text \<open>The bounds of the step size at step \<open>t\<close>.\<close>

definition lower_bound :: "real \<Rightarrow> real \<Rightarrow> nat \<Rightarrow> real" where
  "lower_bound flr gam t = flr * (1 - 1 / (gam * real t + 1))"

definition upper_bound :: "real \<Rightarrow> real \<Rightarrow> nat \<Rightarrow> real" where
  "upper_bound flr gam t = flr * (1 + 1 / (gam * real t))"

text \<open>The scalars of a group at step \<open>t\<close>: \<open>bias_correction1\<close>, \<open>bias_correction2_sq\<close>,
  \<open>lower_bound\<close> and \<open>upper_bound\<close>, in the order the code computes them.\<close>

definition AdaBound_scalars :: "param_group \<Rightarrow> real \<Rightarrow> nat \<Rightarrow> error + (real \<times> real \<times> real \<times> real)" where
  "AdaBound_scalars g base_lr t =
     (let bias_correction1 = 1 - fst (betas g) ^ t in
      case math_sqrt (1 - snd (betas g) ^ t) of
        Inl e \<Rightarrow> Inl e
      | Inr bias_correction2_sq \<Rightarrow>
          (case float_div (final_lr g * lr g) base_lr of
             Inl e \<Rightarrow> Inl e
           | Inr flr \<Rightarrow>
               if gamma g * real t + 1 = 0 then Inl ZeroDivisionError
               else if gamma g * real t = 0 then Inl ZeroDivisionError
               else Inr (bias_correction1, bias_correction2_sq,
                         lower_bound flr (gamma g) t, upper_bound flr (gamma g) t)))"

text \<open>Lazy creation of the state of a parameter.\<close>

definition AdaBound_init_state :: "param_group \<Rightarrow> parameter \<Rightarrow> param_state \<Rightarrow> param_state" where
  "AdaBound_init_state g p s =
     (if len_state s = 0 then
        (let s1 = s\<lparr>exp_avg := Some (zeros_like (data p)), exp_avg_sq := Some (zeros_like (data p))\<rparr>
         in if ams_bound g then s1\<lparr>max_exp_avg_sq := Some (zeros_like (data p))\<rparr> else s1)
      else s)"

text \<open>The weight decay of AdaBound, on a parameter and its (dense) gradient values.\<close>

definition AdaBound_weight_decay :: "param_group \<Rightarrow> tensor \<Rightarrow> tensor \<Rightarrow> tensor \<times> tensor" where
  "AdaBound_weight_decay g p gr =
     (if weight_decouple g then
        (tensor_mul p (1 - weight_decay g * (if fixed_decay g then 1 else lr g)), gr)
      else if weight_decay g > 0 then (p, tensor_add gr p (weight_decay g))
      else (p, gr))"

text \<open>The step size tensor: the scalar step size broadcast to the shape of the
  denominator, divided by it, clamped to the bounds and multiplied by the first moment.\<close>

definition AdaBound_step_size :: "real \<Rightarrow> tensor \<Rightarrow> real \<Rightarrow> real \<Rightarrow> tensor \<Rightarrow> tensor" where
  "AdaBound_step_size step_size de_nom lo hi m =
     tensor_times (tensor_clamp (tensor_div (full_like de_nom step_size) de_nom) lo hi) m"

text \<open>
  The body of the parameter loop. The result is the error raised, if any, and the
  parameter and the state dictionary as they stand when the body returns or raises:
  what was mutated before a raise stays mutated.
\<close>

definition AdaBound_update ::
  "param_group \<Rightarrow> real \<times> real \<times> real \<times> real \<Rightarrow> parameter \<Rightarrow> (nat \<rightharpoonup> param_state)
     \<Rightarrow> error option \<times> parameter \<times> (nat \<rightharpoonup> param_state)" where
  "AdaBound_update g sc p st =
     (case sc of (bias_correction1, bias_correction2_sq, lo, hi) \<Rightarrow>
      (case grad p of
         None \<Rightarrow> (None, p, st)
       | Some gr \<Rightarrow>
           if is_sparse gr then (Some NoSparseGradientError, p, st)
           else
             let s1 = AdaBound_init_state g p (get_state st p);
                 (d1, g1) = AdaBound_weight_decay g (data p) (to_dense gr);
                 p1 = p\<lparr>data := d1, grad := Some (gr\<lparr>to_dense := g1\<rparr>)\<rparr>
             in (case (exp_avg s1, exp_avg_sq s1) of
                   (Some m, Some v) \<Rightarrow>
                     let m' = tensor_add (tensor_mul m (fst (betas g))) g1 (1 - fst (betas g));
                         v' = tensor_addcmul (tensor_mul v (snd (betas g))) g1 g1 (1 - snd (betas g));
                         s2 = s1\<lparr>exp_avg := Some m', exp_avg_sq := Some v'\<rparr>
                     in (case (if ams_bound g then
                                 (case max_exp_avg_sq s2 of
                                    None \<Rightarrow> Inl KeyError
                                  | Some mx \<Rightarrow>
                                      Inr (s2\<lparr>max_exp_avg_sq := Some (tensor_max mx v')\<rparr>,
                                           tensor_add_scalar (tensor_max mx v') (eps g)))
                               else Inr (s2, tensor_add_scalar v' (eps g))) of
                           Inl e \<Rightarrow> (Some e, p1, st(pid p \<mapsto> s2))
                         | Inr (s3, de_nom0) \<Rightarrow>
                             let de_nom = tensor_sqrt de_nom0 in
                             (case (if adam_debias g then Inr (lr g * bias_correction2_sq)
                                    else float_div (lr g * bias_correction2_sq) bias_correction1) of
                                Inl e \<Rightarrow> (Some e, p1, st(pid p \<mapsto> s3))
                              | Inr step_size \<Rightarrow>
                                  (None,
                                   p1\<lparr>data := tensor_add d1
                                               (AdaBound_step_size step_size de_nom lo hi m') (- 1)\<rparr>,
                                   st(pid p \<mapsto> s3))))
                 | _ \<Rightarrow> (Some KeyError, p1, st(pid p \<mapsto> s1)))))"

text \<open>The parameter loop: it stops at the first raise.\<close>

fun AdaBound_params ::
  "param_group \<Rightarrow> real \<times> real \<times> real \<times> real \<Rightarrow> parameter list \<Rightarrow> (nat \<rightharpoonup> param_state)
     \<Rightarrow> error option \<times> parameter list \<times> (nat \<rightharpoonup> param_state)" where
  "AdaBound_params g sc [] st = (None, [], st)"
| "AdaBound_params g sc (p # ps) st =
     (case AdaBound_update g sc p st of
        (Some e, p', st') \<Rightarrow> (Some e, p' # ps, st')
      | (None, p', st') \<Rightarrow>
          (case AdaBound_params g sc ps st' of (e, ps', st'') \<Rightarrow> (e, p' # ps', st'')))"

text \<open>One turn of the group loop: the counter, the scalars, the parameters.\<close>

definition next_step :: "param_group \<Rightarrow> nat" where
  "next_step g = (case step g of Some n \<Rightarrow> n + 1 | None \<Rightarrow> 1)"

definition AdaBound_group ::
  "param_group \<Rightarrow> real \<Rightarrow> (nat \<rightharpoonup> param_state) \<Rightarrow> error option \<times> param_group \<times> (nat \<rightharpoonup> param_state)" where
  "AdaBound_group g base_lr st =
     (let g1 = g\<lparr>step := Some (next_step g)\<rparr> in
      case AdaBound_scalars g1 base_lr (next_step g) of
        Inl e \<Rightarrow> (Some e, g1, st)
      | Inr sc \<Rightarrow>
          (case AdaBound_params g1 sc (params g1) st of
             (e, ps', st') \<Rightarrow> (e, g1\<lparr>params := ps'\<rparr>, st')))"

text \<open>The group loop runs over \<^verbatim>\<open>zip(self.param_groups, self.base_lrs)\<close>: a group
  without a base learning rate is not visited.\<close>

fun AdaBound_groups ::
  "param_group list \<Rightarrow> real list \<Rightarrow> (nat \<rightharpoonup> param_state)
     \<Rightarrow> error option \<times> param_group list \<times> (nat \<rightharpoonup> param_state)" where
  "AdaBound_groups [] bs st = (None, [], st)"
| "AdaBound_groups (g # gs) [] st = (None, g # gs, st)"
| "AdaBound_groups (g # gs) (b # bs) st =
     (case AdaBound_group g b st of
        (Some e, g', st') \<Rightarrow> (Some e, g' # gs, st')
      | (None, g', st') \<Rightarrow>
          (case AdaBound_groups gs bs st' of (e, gs', st'') \<Rightarrow> (e, g' # gs', st'')))"

text \<open>\<^verbatim>\<open>AdaBound.step\<close> without a closure: the error raised, if any, and the optimizer
  as the call leaves it.\<close>

definition AdaBound_step :: "'a AdaBound_scheme \<Rightarrow> error option \<times> 'a AdaBound_scheme" where
  "AdaBound_step opt =
     (case AdaBound_groups (param_groups opt) (base_lrs opt) (state opt) of
        (e, gs', st') \<Rightarrow> (e, opt\<lparr>param_groups := gs', state := st'\<rparr>))"

section \<open>Yogi\<close>

text \<open>
  Modelled from the spec: the helpers \<^verbatim>\<open>debias\<close>, \<^verbatim>\<open>apply_adam_debias\<close>,
  \<^verbatim>\<open>maximize_gradient\<close> and \<^verbatim>\<open>apply_weight_decay\<close> of the base class
  \<^verbatim>\<open>BaseOptimizer\<close>, whose source is not part of the development. The bias correction
  is \<open>1 - \<beta>^t\<close>; the step size is divided by the first bias correction unless
  \<open>adam_debias\<close> is set; the gradient is negated when maximizing; the weight decay is a
  no-op at zero, shrinks the parameter when decoupled and is added to the gradient
  otherwise.
\<close>

definition debias :: "real \<Rightarrow> nat \<Rightarrow> real" where
  "debias beta t = 1 - beta ^ t"

definition apply_adam_debias :: "bool \<Rightarrow> real \<Rightarrow> real \<Rightarrow> error + real" where
  "apply_adam_debias debias_flag step_size bias_correction1 =
     (if debias_flag then Inr step_size else float_div step_size bias_correction1)"

definition maximize_gradient :: "tensor \<Rightarrow> bool \<Rightarrow> tensor" where
  "maximize_gradient gr mx = (if mx then tensor_neg gr else gr)"

definition apply_weight_decay :: "tensor \<Rightarrow> tensor \<Rightarrow> real \<Rightarrow> real \<Rightarrow> bool \<Rightarrow> bool \<Rightarrow> tensor \<times> tensor" where
  "apply_weight_decay p gr rate wd decouple fixed =
     (if wd = 0 then (p, gr)
      else if decouple then (tensor_mul p (1 - wd * (if fixed then 1 else rate)), gr)
      else (p, tensor_add gr p wd))"

text \<open>\<^verbatim>\<open>Yogi.init_group\<close>: one parameter, then the loop over the group's parameters.\<close>

definition Yogi_init_state :: "param_group \<Rightarrow> gradient \<Rightarrow> param_state \<Rightarrow> param_state" where
  "Yogi_init_state g gr s =
     (if len_state s = 0 then
        s\<lparr>exp_avg := Some (full_like (to_dense gr) (initial_accumulator g)),
          exp_avg_sq := Some (full_like (to_dense gr) (initial_accumulator g))\<rparr>
      else s)"

fun init_group :: "param_group \<Rightarrow> parameter list \<Rightarrow> (nat \<rightharpoonup> param_state) \<Rightarrow> error option \<times> (nat \<rightharpoonup> param_state)" where
  "init_group g [] st = (None, st)"
| "init_group g (p # ps) st =
     (case grad p of
        None \<Rightarrow> init_group g ps st
      | Some gr \<Rightarrow>
          if is_sparse gr then (Some NoSparseGradientError, st)
          else init_group g ps (st(pid p \<mapsto> Yogi_init_state g gr (get_state st p))))"

text \<open>The body of the parameter loop of \<^verbatim>\<open>Yogi.step\<close>; the accumulators are real-valued.\<close>

definition Yogi_update ::
  "param_group \<Rightarrow> bool \<Rightarrow> real \<Rightarrow> real \<Rightarrow> parameter \<Rightarrow> (nat \<rightharpoonup> param_state)
     \<Rightarrow> error option \<times> parameter \<times> (nat \<rightharpoonup> param_state)" where
  "Yogi_update g mx step_size bias_correction2_sq p st =
     (case grad p of
        None \<Rightarrow> (None, p, st)
      | Some gr \<Rightarrow>
          let g0 = maximize_gradient (to_dense gr) mx;
              s = get_state st p;
              (d1, g1) = apply_weight_decay (data p) g0 (lr g) (weight_decay g)
                           (weight_decouple g) (fixed_decay g);
              p1 = p\<lparr>data := d1, grad := Some (gr\<lparr>to_dense := g1\<rparr>)\<rparr>;
              grad_p2 = tensor_times g1 g1
          in (case (exp_avg s, exp_avg_sq s) of
                (Some m, Some v) \<Rightarrow>
                  let m' = tensor_add (tensor_mul m (fst (betas g))) g1 (1 - fst (betas g));
                      v' = tensor_addcmul v (tensor_sign (tensor_sub v grad_p2)) grad_p2
                             (- (1 - snd (betas g)));
                      de_nom = tensor_add_scalar
                                 (tensor_div_scalar (tensor_sqrt v') bias_correction2_sq) (eps g)
                  in (None, p1\<lparr>data := tensor_addcdiv d1 m' de_nom (- step_size)\<rparr>,
                      st(pid p \<mapsto> s\<lparr>exp_avg := Some m', exp_avg_sq := Some v'\<rparr>))
              | _ \<Rightarrow> (Some KeyError, p1, st(pid p \<mapsto> s))))"

fun Yogi_params ::
  "param_group \<Rightarrow> bool \<Rightarrow> real \<Rightarrow> real \<Rightarrow> parameter list \<Rightarrow> (nat \<rightharpoonup> param_state)
     \<Rightarrow> error option \<times> parameter list \<times> (nat \<rightharpoonup> param_state)" where
  "Yogi_params g mx step_size bc2 [] st = (None, [], st)"
| "Yogi_params g mx step_size bc2 (p # ps) st =
     (case Yogi_update g mx step_size bc2 p st of
        (Some e, p', st') \<Rightarrow> (Some e, p' # ps, st')
      | (None, p', st') \<Rightarrow>
          (case Yogi_params g mx step_size bc2 ps st' of (e, ps', st'') \<Rightarrow> (e, p' # ps', st'')))"

text \<open>One turn of the group loop: \<^verbatim>\<open>init_group\<close> runs only while the group has no
  step counter, and a raise there leaves the counter absent.\<close>

definition Yogi_group ::
  "param_group \<Rightarrow> bool \<Rightarrow> (nat \<rightharpoonup> param_state) \<Rightarrow> error option \<times> param_group \<times> (nat \<rightharpoonup> param_state)" where
  "Yogi_group g mx st =
     (case (case step g of
              None \<Rightarrow> init_group g (params g) st
            | Some n \<Rightarrow> (None, st)) of
        (Some e, st0) \<Rightarrow> (Some e, g, st0)
      | (None, st0) \<Rightarrow>
          let g1 = g\<lparr>step := Some (next_step g)\<rparr>;
              bias_correction1 = debias (fst (betas g1)) (next_step g)
          in (case math_sqrt (debias (snd (betas g1)) (next_step g)) of
                Inl e \<Rightarrow> (Some e, g1, st0)
              | Inr bias_correction2_sq \<Rightarrow>
                  (case apply_adam_debias (adam_debias g1) (lr g1) bias_correction1 of
                     Inl e \<Rightarrow> (Some e, g1, st0)
                   | Inr step_size \<Rightarrow>
                       (case Yogi_params g1 mx step_size bias_correction2_sq (params g1) st0 of
                          (e, ps', st') \<Rightarrow> (e, g1\<lparr>params := ps'\<rparr>, st')))))"

fun Yogi_groups ::
  "param_group list \<Rightarrow> bool \<Rightarrow> (nat \<rightharpoonup> param_state)
     \<Rightarrow> error option \<times> param_group list \<times> (nat \<rightharpoonup> param_state)" where
  "Yogi_groups [] mx st = (None, [], st)"
| "Yogi_groups (g # gs) mx st =
     (case Yogi_group g mx st of
        (Some e, g', st') \<Rightarrow> (Some e, g' # gs, st')
      | (None, g', st') \<Rightarrow>
          (case Yogi_groups gs mx st' of (e, gs', st'') \<Rightarrow> (e, g' # gs', st'')))"

text \<open>\<^verbatim>\<open>Yogi.step\<close> without a closure.\<close>

definition Yogi_step :: "'a Yogi_scheme \<Rightarrow> error option \<times> 'a Yogi_scheme" where
  "Yogi_step opt =
     (case Yogi_groups (param_groups opt) (maximize opt) (state opt) of
        (e, gs', st') \<Rightarrow> (e, opt\<lparr>param_groups := gs', state := st'\<rparr>))"

section \<open>Well-formed optimizers\<close>

text \<open>
  Modelled from the spec: the validation of the constructors (the validators of the base
  class are not part of the development). The learning rate is positive, each beta lies
  in \<open>[0, 1)\<close>, epsilon and the weight decay are non-negative.
\<close>

definition valid_group :: "param_group \<Rightarrow> bool" where
  "valid_group g =
     (0 < lr g \<and> 0 \<le> fst (betas g) \<and> fst (betas g) < 1 \<and> 0 \<le> snd (betas g) \<and> snd (betas g) < 1
      \<and> 0 \<le> eps g \<and> 0 \<le> weight_decay g)"


text \<open>Every second-moment accumulator of the state dictionary is elementwise
  non-negative.\<close>

definition nonneg_sq :: "(nat \<rightharpoonup> param_state) \<Rightarrow> bool" where
  "nonneg_sq st = (\<forall>k s v. st k = Some s \<longrightarrow> exp_avg_sq s = Some v \<longrightarrow> list_all (\<lambda>x. 0 \<le> x) v)"


section \<open>Runs and concrete optimizers\<close>

text \<open>The backward pass, as far as the optimizer sees it: the values and the gradients
  of the parameters change, here by \<open>f\<close>; hyperparameters, counters and the state
  dictionary do not.\<close>

definition backward :: "(parameter \<Rightarrow> parameter) \<Rightarrow> 'a optimizer_scheme \<Rightarrow> 'a optimizer_scheme" where
  "backward f opt =
     opt\<lparr>param_groups := map (\<lambda>g. g\<lparr>params := map f (params g)\<rparr>) (param_groups opt)\<rparr>"

definition set_grad :: "gradient option \<Rightarrow> 'a optimizer_scheme \<Rightarrow> 'a optimizer_scheme" where
  "set_grad gr opt = backward (\<lambda>p. p\<lparr>grad := gr\<rparr>) opt"

text \<open>A run of an optimizer: a sequence of training iterations (a backward pass, then a
  step, whose raise, if any, the caller survives) and, for AdaBound, of resets.\<close>

datatype call = Train "parameter \<Rightarrow> parameter" | Reset

fun AdaBound_run :: "AdaBound \<Rightarrow> call list \<Rightarrow> AdaBound" where
  "AdaBound_run a [] = a"
| "AdaBound_run a (Train f # cs) = AdaBound_run (snd (AdaBound_step (backward f a))) cs"
| "AdaBound_run a (Reset # cs) = AdaBound_run (AdaBound_reset a) cs"

fun Yogi_run :: "Yogi \<Rightarrow> (parameter \<Rightarrow> parameter) list \<Rightarrow> Yogi" where
  "Yogi_run y [] = y"
| "Yogi_run y (f # fs) = Yogi_run (snd (Yogi_step (backward f y))) fs"

definition dense :: "tensor \<Rightarrow> gradient" where
  "dense t = \<lparr>is_sparse = False, to_dense = t\<rparr>"

definition sparse :: "tensor \<Rightarrow> gradient" where
  "sparse t = \<lparr>is_sparse = True, to_dense = t\<rparr>"

definition param0 :: "gradient option \<Rightarrow> parameter" where
  "param0 gr = \<lparr>pid = 0, data = [1], grad = gr\<rparr>"

definition hyper :: "parameter list \<Rightarrow> param_group" where
  "hyper ps = \<lparr>params = ps, lr = 1, betas = (1 / 2, 1 / 2), final_lr = 1, gamma = 1,
     weight_decay = 0, weight_decouple = True, fixed_decay = False, ams_bound = False,
     adam_debias = False, initial_accumulator = 1, eps = 1, step = None\<rparr>"

definition adabound0 :: "gradient option \<Rightarrow> AdaBound" where
  "adabound0 gr = \<lparr>param_groups = [hyper [param0 gr]], state = Map.empty, base_lrs = [1]\<rparr>"

definition yogi0 :: "gradient option \<Rightarrow> Yogi" where
  "yogi0 gr = \<lparr>param_groups = [hyper [param0 gr]], state = Map.empty, maximize = False\<rparr>"



section \<open>Elementwise reading of the tensor operations\<close>

lemma length_zeros_like [simp]: "length (zeros_like t) = length t"
  by (simp add: zeros_like_def)

lemma length_full_like [simp]: "length (full_like t c) = length t"
  by (simp add: full_like_def)

lemma length_tensor_mul [simp]: "length (tensor_mul t c) = length t"
  by (simp add: tensor_mul_def)

lemma length_tensor_add [simp]: "length (tensor_add t u a) = min (length t) (length u)"
  by (simp add: tensor_add_def)

lemma length_tensor_add_scalar [simp]: "length (tensor_add_scalar t c) = length t"
  by (simp add: tensor_add_scalar_def)

lemma length_tensor_addcmul [simp]:
  "length (tensor_addcmul t a b c) = min (length t) (min (length a) (length b))"
  by (simp add: tensor_addcmul_def)

lemma length_tensor_addcdiv [simp]:
  "length (tensor_addcdiv t a b c) = min (length t) (min (length a) (length b))"
  by (simp add: tensor_addcdiv_def)

lemma length_tensor_sqrt [simp]: "length (tensor_sqrt t) = length t"
  by (simp add: tensor_sqrt_def)

lemma length_tensor_div_scalar [simp]: "length (tensor_div_scalar t c) = length t"
  by (simp add: tensor_div_scalar_def)

lemma length_tensor_div [simp]: "length (tensor_div t u) = min (length t) (length u)"
  by (simp add: tensor_div_def)

lemma length_tensor_times [simp]: "length (tensor_times t u) = min (length t) (length u)"
  by (simp add: tensor_times_def)

lemma length_tensor_sub [simp]: "length (tensor_sub t u) = min (length t) (length u)"
  by (simp add: tensor_sub_def)

lemma length_tensor_max [simp]: "length (tensor_max t u) = min (length t) (length u)"
  by (simp add: tensor_max_def)

lemma length_tensor_sign [simp]: "length (tensor_sign t) = length t"
  by (simp add: tensor_sign_def)

lemma length_tensor_neg [simp]: "length (tensor_neg t) = length t"
  by (simp add: tensor_neg_def)

lemma length_tensor_clamp [simp]: "length (tensor_clamp t lo hi) = length t"
  by (simp add: tensor_clamp_def)

lemma nth_zeros_like [simp]: "i < length t \<Longrightarrow> zeros_like t ! i = 0"
  by (simp add: zeros_like_def)

lemma nth_full_like [simp]: "i < length t \<Longrightarrow> full_like t c ! i = c"
  by (simp add: full_like_def)

lemma nth_tensor_mul [simp]: "i < length t \<Longrightarrow> tensor_mul t c ! i = t ! i * c"
  by (simp add: tensor_mul_def)

lemma nth_tensor_add [simp]:
  "i < length t \<Longrightarrow> i < length u \<Longrightarrow> tensor_add t u a ! i = t ! i + a * u ! i"
  by (simp add: tensor_add_def)

lemma nth_tensor_add_scalar [simp]: "i < length t \<Longrightarrow> tensor_add_scalar t c ! i = t ! i + c"
  by (simp add: tensor_add_scalar_def)

lemma nth_tensor_addcmul [simp]:
  "i < length t \<Longrightarrow> i < length a \<Longrightarrow> i < length b
     \<Longrightarrow> tensor_addcmul t a b c ! i = t ! i + c * (a ! i * b ! i)"
  by (simp add: tensor_addcmul_def)

lemma nth_tensor_addcdiv [simp]:
  "i < length t \<Longrightarrow> i < length a \<Longrightarrow> i < length b
     \<Longrightarrow> tensor_addcdiv t a b c ! i = t ! i + c * (a ! i / b ! i)"
  by (simp add: tensor_addcdiv_def)

lemma nth_tensor_sqrt [simp]: "i < length t \<Longrightarrow> tensor_sqrt t ! i = sqrt (t ! i)"
  by (simp add: tensor_sqrt_def)

lemma nth_tensor_div_scalar [simp]: "i < length t \<Longrightarrow> tensor_div_scalar t c ! i = t ! i / c"
  by (simp add: tensor_div_scalar_def)

lemma nth_tensor_div [simp]:
  "i < length t \<Longrightarrow> i < length u \<Longrightarrow> tensor_div t u ! i = t ! i / u ! i"
  by (simp add: tensor_div_def)

lemma nth_tensor_times [simp]:
  "i < length t \<Longrightarrow> i < length u \<Longrightarrow> tensor_times t u ! i = t ! i * u ! i"
  by (simp add: tensor_times_def)

lemma nth_tensor_sub [simp]:
  "i < length t \<Longrightarrow> i < length u \<Longrightarrow> tensor_sub t u ! i = t ! i - u ! i"
  by (simp add: tensor_sub_def)

lemma nth_tensor_max [simp]:
  "i < length t \<Longrightarrow> i < length u \<Longrightarrow> tensor_max t u ! i = max (t ! i) (u ! i)"
  by (simp add: tensor_max_def)

lemma nth_tensor_sign [simp]: "i < length t \<Longrightarrow> tensor_sign t ! i = sgn (t ! i)"
  by (simp add: tensor_sign_def)

lemma nth_tensor_neg [simp]: "i < length t \<Longrightarrow> tensor_neg t ! i = - (t ! i)"
  by (simp add: tensor_neg_def)

lemma nth_tensor_clamp [simp]: "i < length t \<Longrightarrow> tensor_clamp t lo hi ! i = clamp (t ! i) lo hi"
  by (simp add: tensor_clamp_def)

lemma AdaBound_scalars_Inr:
  assumes "AdaBound_scalars g base_lr t = Inr (bc1, bc2, lo, hi)"
  shows "bc1 = 1 - fst (betas g) ^ t" and "bc2 = sqrt (1 - snd (betas g) ^ t)"
    and "lo = lower_bound (final_lr g * lr g / base_lr) (gamma g) t"
    and "hi = upper_bound (final_lr g * lr g / base_lr) (gamma g) t"
  using assms
  by (auto simp: AdaBound_scalars_def math_sqrt_def float_div_def Let_def split: if_splits)

section \<open>The update rule of AdaBound\<close>




section \<open>The update rule of Yogi\<close>





section \<open>The weight decay\<close>

text \<open>
  C7. The weight decay applied to a parameter before the moment updates, for a weight
  decay in the validated range (non-negative) and a gradient of the parameter's shape:
  at weight decay zero the parameter and the gradient are unchanged; when decoupled, the
  parameter is multiplied by \<open>1 - weight_decay * (1 if fixed_decay else lr)\<close> and the
  gradient is untouched; otherwise the parameter is untouched and the gradient is
  incremented by \<open>weight_decay * parameter\<close>; decoupled and fixed with weight decay
  \<open>1/10\<close>, the parameter is scaled by exactly \<open>9/10\<close>, whatever the learning rate.
\<close>

theorem weight_decay_policy:
  assumes wd: "0 \<le> weight_decay g" and len: "length gr = length p"
  shows "(weight_decay g = 0 \<longrightarrow> AdaBound_weight_decay g p gr = (p, gr))
    \<and> (weight_decouple g \<longrightarrow>
          AdaBound_weight_decay g p gr
            = (map (\<lambda>x. x * (1 - weight_decay g * (if fixed_decay g then 1 else lr g))) p, gr))
    \<and> (\<not> weight_decouple g \<longrightarrow>
          fst (AdaBound_weight_decay g p gr) = p
        \<and> length (snd (AdaBound_weight_decay g p gr)) = length gr
        \<and> (\<forall>i<length gr. snd (AdaBound_weight_decay g p gr) ! i = gr ! i + weight_decay g * p ! i))
    \<and> (weight_decouple g \<and> fixed_decay g \<and> weight_decay g = 1 / 10 \<longrightarrow>
          AdaBound_weight_decay g p gr = (map (\<lambda>x. x * (9 / 10)) p, gr))"
proof (intro conjI impI)
  assume z: "weight_decay g = 0"
  have "map (\<lambda>x. x * 1) p = p" by (induction p) auto
  with z show "AdaBound_weight_decay g p gr = (p, gr)"
    by (simp add: AdaBound_weight_decay_def tensor_mul_def)
next
  assume "weight_decouple g"
  then show "AdaBound_weight_decay g p gr
      = (map (\<lambda>x. x * (1 - weight_decay g * (if fixed_decay g then 1 else lr g))) p, gr)"
    by (simp add: AdaBound_weight_decay_def tensor_mul_def)
next
  assume "\<not> weight_decouple g"
  then show "fst (AdaBound_weight_decay g p gr) = p"
    by (simp add: AdaBound_weight_decay_def)
next
  assume "\<not> weight_decouple g"
  then show "length (snd (AdaBound_weight_decay g p gr)) = length gr"
    using len by (simp add: AdaBound_weight_decay_def)
next
  assume n: "\<not> weight_decouple g"
  show "\<forall>i<length gr. snd (AdaBound_weight_decay g p gr) ! i = gr ! i + weight_decay g * p ! i"
  proof (cases "weight_decay g = 0")
    case True
    with n show ?thesis by (simp add: AdaBound_weight_decay_def)
  next
    case False
    with wd have "0 < weight_decay g" by simp
    with n len show ?thesis by (simp add: AdaBound_weight_decay_def)
  qed
next
  assume "weight_decouple g \<and> fixed_decay g \<and> weight_decay g = 1 / 10"
  then show "AdaBound_weight_decay g p gr = (map (\<lambda>x. x * (9 / 10)) p, gr)"
    by (simp add: AdaBound_weight_decay_def tensor_mul_def)
qed

theorem weight_decay_policy_witness:
  "0 \<le> weight_decay ((hyper []) \<lparr>weight_decay := 1 / 10, fixed_decay := True, lr := 7\<rparr>)
   \<and> AdaBound_weight_decay ((hyper []) \<lparr>weight_decay := 1 / 10, fixed_decay := True, lr := 7\<rparr>) [10, 20] [3, 4]
       = ([9, 18], [3, 4])
   \<and> snd (AdaBound_weight_decay ((hyper []) \<lparr>weight_decay := 1 / 10, weight_decouple := False\<rparr>) [10, 20] [3, 4]) ! 1
       = 6"
proof -
  let ?g = "(hyper []) \<lparr>weight_decay := 1 / 10, fixed_decay := True, lr := 7\<rparr>"
  let ?h = "(hyper []) \<lparr>weight_decay := 1 / 10, weight_decouple := False\<rparr>"
  have a: "0 \<le> weight_decay ?g" "0 \<le> weight_decay ?h" by (simp_all add: hyper_def)
  have l: "length [3, 4 :: real] = length [10, 20 :: real]" by simp
  from weight_decay_policy [OF a(1) l]
  have 1: "AdaBound_weight_decay ?g [10, 20] [3, 4] = ([9, 18], [3, 4])"
    by (simp add: hyper_def)
  from weight_decay_policy [OF a(2) l]
  have 2: "snd (AdaBound_weight_decay ?h [10, 20] [3, 4]) ! 1 = 6"
    by (simp add: hyper_def)
  show ?thesis using a(1) 1 2 by blast
qed

section \<open>The dynamic bounds of AdaBound\<close>

lemma lower_bound_mono:
  assumes "0 < gam" "0 \<le> flr" "s \<le> t"
  shows "lower_bound flr gam s \<le> lower_bound flr gam t"
proof -
  have "gam * real s + 1 \<le> gam * real t + 1" using assms by simp
  moreover have "0 \<le> gam * real s" using assms by simp
  then have "0 < gam * real s + 1" by linarith
  ultimately have "1 / (gam * real t + 1) \<le> 1 / (gam * real s + 1)"
    by (simp add: frac_le)
  then have "1 - 1 / (gam * real s + 1) \<le> 1 - 1 / (gam * real t + 1)" by simp
  then show ?thesis unfolding lower_bound_def using assms(2) by (rule mult_left_mono)
qed

lemma upper_bound_antimono:
  assumes "0 < gam" "0 \<le> flr" "1 \<le> s" "s \<le> t"
  shows "upper_bound flr gam t \<le> upper_bound flr gam s"
proof -
  have "gam * real s \<le> gam * real t" using assms by simp
  moreover have "0 < gam * real s" using assms by simp
  ultimately have "1 / (gam * real t) \<le> 1 / (gam * real s)"
    by (simp add: frac_le)
  then have "1 + 1 / (gam * real t) \<le> 1 + 1 / (gam * real s)" by simp
  then show ?thesis unfolding upper_bound_def using assms(2) by (rule mult_left_mono)
qed

lemma inv_lin_tendsto_0:
  assumes "0 < gam"
  shows "(\<lambda>t. 1 / (gam * real t + c)) \<longlonglongrightarrow> 0"
proof -
  have "LIM t sequentially. gam * real t :> at_top"
    using assms by (intro filterlim_tendsto_pos_mult_at_top [OF tendsto_const] filterlim_real_sequentially)
  then have "LIM t sequentially. c + gam * real t :> at_top"
    by (intro filterlim_tendsto_add_at_top [OF tendsto_const])
  then have "LIM t sequentially. gam * real t + c :> at_infinity"
    by (simp add: add.commute filterlim_at_top_imp_at_infinity)
  then show ?thesis
    by (intro tendsto_divide_0 [OF tendsto_const])
qed

lemma lower_bound_tendsto:
  assumes "0 < gam"
  shows "(\<lambda>t. lower_bound flr gam t) \<longlonglongrightarrow> flr"
proof -
  have "(\<lambda>t. flr * (1 - 1 / (gam * real t + 1))) \<longlonglongrightarrow> flr * (1 - 0)"
    by (intro tendsto_intros inv_lin_tendsto_0 assms)
  then show ?thesis by (simp add: lower_bound_def)
qed

lemma clamp_bounds: "lo \<le> hi \<Longrightarrow> lo \<le> clamp x lo hi \<and> clamp x lo hi \<le> hi"
  by (simp add: clamp_def)

lemma bounds_ordered:
  assumes "0 < gam" "0 \<le> flr" "1 \<le> t"
  shows "lower_bound flr gam t \<le> upper_bound flr gam t"
proof -
  have "0 < gam * real t" using assms by simp
  then have "1 - 1 / (gam * real t + 1) \<le> 1" "1 \<le> 1 + 1 / (gam * real t)"
    by (simp_all add: add_pos_nonneg)
  then have "1 - 1 / (gam * real t + 1) \<le> 1 + 1 / (gam * real t)" by linarith
  then show ?thesis unfolding lower_bound_def upper_bound_def using assms(2) by (rule mult_left_mono)
qed

lemma upper_bound_tendsto:
  assumes "0 < gam"
  shows "(\<lambda>t. upper_bound flr gam t) \<longlonglongrightarrow> flr"
proof -
  have "(\<lambda>t. flr * (1 + 1 / (gam * real t + 0))) \<longlonglongrightarrow> flr * (1 + 0)"
    by (intro tendsto_intros inv_lin_tendsto_0 assms)
  then show ?thesis by (simp add: upper_bound_def)
qed


lemma nth_AdaBound_step_size:
  assumes "i < length de_nom" "i < length m"
  shows "AdaBound_step_size ss de_nom lo hi m ! i = clamp (ss / de_nom ! i) lo hi * m ! i"
  using assms by (simp add: AdaBound_step_size_def)

text \<open>
  C6 (as amended). AdaBound with \<open>\<gamma> > 0\<close> and a non-negative rescaled final learning
  rate \<open>final_lr * lr / base_lr\<close>: over the step counts \<open>t \<ge> 1\<close> the lower bound is
  non-decreasing and the upper bound non-increasing, both converge to the rescaled final
  learning rate, and at every step count \<open>t \<ge> 1\<close> the bounds the code computes are these
  and the clamped quotient of step size and denominator, the factor by which the code
  multiplies the first moment to obtain an element of its step size tensor, lies between
  them.
\<close>

theorem AdaBound_bounds:
  assumes gam: "0 < gamma g" and flr: "0 \<le> final_lr g * lr g / base_lr"
  shows "(\<forall>s t. 1 \<le> s \<and> s \<le> t \<longrightarrow>
            lower_bound (final_lr g * lr g / base_lr) (gamma g) s
              \<le> lower_bound (final_lr g * lr g / base_lr) (gamma g) t
          \<and> upper_bound (final_lr g * lr g / base_lr) (gamma g) t
              \<le> upper_bound (final_lr g * lr g / base_lr) (gamma g) s)
    \<and> (\<lambda>t. lower_bound (final_lr g * lr g / base_lr) (gamma g) t) \<longlonglongrightarrow> final_lr g * lr g / base_lr
    \<and> (\<lambda>t. upper_bound (final_lr g * lr g / base_lr) (gamma g) t) \<longlonglongrightarrow> final_lr g * lr g / base_lr
    \<and> (\<forall>t bc1 bc2 lo hi. 1 \<le> t \<and> AdaBound_scalars g base_lr t = Inr (bc1, bc2, lo, hi) \<longrightarrow>
            lo = lower_bound (final_lr g * lr g / base_lr) (gamma g) t
          \<and> hi = upper_bound (final_lr g * lr g / base_lr) (gamma g) t
          \<and> (\<forall>step_size de_nom m i. i < length de_nom \<and> i < length m \<longrightarrow>
                AdaBound_step_size step_size de_nom lo hi m ! i
                  = clamp (step_size / de_nom ! i) lo hi * m ! i
              \<and> lo \<le> clamp (step_size / de_nom ! i) lo hi
              \<and> clamp (step_size / de_nom ! i) lo hi \<le> hi))"
proof (intro conjI allI impI)
  fix s t :: nat
  assume "1 \<le> s \<and> s \<le> t"
  then show "lower_bound (final_lr g * lr g / base_lr) (gamma g) s
      \<le> lower_bound (final_lr g * lr g / base_lr) (gamma g) t"
    and "upper_bound (final_lr g * lr g / base_lr) (gamma g) t
      \<le> upper_bound (final_lr g * lr g / base_lr) (gamma g) s"
    using gam flr by (simp_all add: lower_bound_mono upper_bound_antimono)
next
  show "(\<lambda>t. lower_bound (final_lr g * lr g / base_lr) (gamma g) t) \<longlonglongrightarrow> final_lr g * lr g / base_lr"
    using gam by (rule lower_bound_tendsto)
next
  show "(\<lambda>t. upper_bound (final_lr g * lr g / base_lr) (gamma g) t) \<longlonglongrightarrow> final_lr g * lr g / base_lr"
    using gam by (rule upper_bound_tendsto)
next
  fix t :: nat and bc1 bc2 lo hi step_size :: real and de_nom m :: tensor and i :: nat
  assume a: "1 \<le> t \<and> AdaBound_scalars g base_lr t = Inr (bc1, bc2, lo, hi)"
  then have sc: "AdaBound_scalars g base_lr t = Inr (bc1, bc2, lo, hi)" and t: "1 \<le> t" by simp_all
  show lo: "lo = lower_bound (final_lr g * lr g / base_lr) (gamma g) t"
    and hi: "hi = upper_bound (final_lr g * lr g / base_lr) (gamma g) t"
    using AdaBound_scalars_Inr [OF sc] by simp_all
  have "lo \<le> hi" unfolding lo hi using gam flr t by (rule bounds_ordered)
  then show "lo \<le> clamp (step_size / de_nom ! i) lo hi" "clamp (step_size / de_nom ! i) lo hi \<le> hi"
    using clamp_bounds by simp_all
  assume "i < length de_nom \<and> i < length m"
  then show "AdaBound_step_size step_size de_nom lo hi m ! i = clamp (step_size / de_nom ! i) lo hi * m ! i"
    by (simp add: nth_AdaBound_step_size)
qed

theorem AdaBound_bounds_counterexample:
  "lower_bound (final_lr ((hyper []) \<lparr>final_lr := - 1\<rparr>) * lr ((hyper []) \<lparr>final_lr := - 1\<rparr>) / 1)
       (gamma ((hyper []) \<lparr>final_lr := - 1\<rparr>)) 2
     < lower_bound (final_lr ((hyper []) \<lparr>final_lr := - 1\<rparr>) * lr ((hyper []) \<lparr>final_lr := - 1\<rparr>) / 1)
         (gamma ((hyper []) \<lparr>final_lr := - 1\<rparr>)) 1
   \<and> AdaBound_scalars (hyper []) 1 1 = Inr (1 / 2, sqrt (1 / 2), 1 / 2, 2)
   \<and> AdaBound_step_size 2 [1] (1 / 2) 2 [0] ! 0 < 1 / 2"
  by (simp add: hyper_def lower_bound_def upper_bound_def AdaBound_scalars_def math_sqrt_def
      float_div_def AdaBound_step_size_def tensor_times_def tensor_clamp_def tensor_div_def
      full_like_def clamp_def)

theorem AdaBound_bounds_witness:
  "0 < gamma (hyper []) \<and> 0 \<le> final_lr (hyper []) * lr (hyper []) / 1
   \<and> lower_bound (final_lr (hyper []) * lr (hyper []) / 1) (gamma (hyper [])) 1
       \<le> lower_bound (final_lr (hyper []) * lr (hyper []) / 1) (gamma (hyper [])) 2
   \<and> upper_bound (final_lr (hyper []) * lr (hyper []) / 1) (gamma (hyper [])) 2
       \<le> upper_bound (final_lr (hyper []) * lr (hyper []) / 1) (gamma (hyper [])) 1
   \<and> 1 / 2 \<le> clamp (2 / [1] ! 0) (1 / 2) 2 \<and> clamp (2 / [1] ! 0) (1 / 2) 2 \<le> 2"
proof -
  have a: "0 < gamma (hyper [])" "0 \<le> final_lr (hyper []) * lr (hyper []) / 1"
    by (simp_all add: hyper_def)
  have sc: "AdaBound_scalars (hyper []) 1 1 = Inr (1 / 2, sqrt (1 / 2), 1 / 2, 2)"
    by (simp add: AdaBound_scalars_def hyper_def math_sqrt_def float_div_def lower_bound_def
        upper_bound_def)
  note R = AdaBound_bounds [OF a]
  from R have m: "lower_bound (final_lr (hyper []) * lr (hyper []) / 1) (gamma (hyper [])) 1
       \<le> lower_bound (final_lr (hyper []) * lr (hyper []) / 1) (gamma (hyper [])) 2
   \<and> upper_bound (final_lr (hyper []) * lr (hyper []) / 1) (gamma (hyper [])) 2
       \<le> upper_bound (final_lr (hyper []) * lr (hyper []) / 1) (gamma (hyper [])) 1"
    by simp
  from R sc have "1 / 2 \<le> clamp (2 / [1] ! 0) (1 / 2) 2 \<and> clamp (2 / [1] ! 0) (1 / 2) 2 \<le> 2"
    by (metis One_nat_def le_refl length_Cons list.size(3) zero_less_one)
  with a m show ?thesis by blast
qed

section \<open>Evaluation of concrete runs\<close>

text \<open>The definitions a concrete step unfolds to.\<close>

lemmas eval_defs = Yogi_step_def Yogi_group_def Yogi_update_def Yogi_init_state_def
  AdaBound_step_def AdaBound_group_def AdaBound_update_def AdaBound_init_state_def
  AdaBound_scalars_def AdaBound_weight_decay_def AdaBound_step_size_def AdaBound_reset_def
  reset_state_def lower_bound_def upper_bound_def
  debias_def apply_adam_debias_def maximize_gradient_def apply_weight_decay_def
  math_sqrt_def float_div_def next_step_def get_state_def empty_state_def len_state_def
  backward_def set_grad_def dense_def sparse_def param0_def hyper_def adabound0_def yogi0_def
  zeros_like_def full_like_def tensor_mul_def tensor_add_def tensor_add_scalar_def
  tensor_addcmul_def tensor_addcdiv_def tensor_sqrt_def tensor_div_scalar_def tensor_div_def
  tensor_times_def tensor_sub_def tensor_max_def tensor_sign_def tensor_neg_def
  tensor_clamp_def clamp_def Let_def

section \<open>Non-negative second moments\<close>

lemma nonneg_sq_upd:
  assumes "nonneg_sq st" "\<And>v. exp_avg_sq s = Some v \<Longrightarrow> list_all (\<lambda>x. 0 \<le> x) v"
  shows "nonneg_sq (st(k \<mapsto> s))"
  using assms by (auto simp: nonneg_sq_def)

lemma nonneg_sqD:
  "nonneg_sq st \<Longrightarrow> st k = Some s \<Longrightarrow> exp_avg_sq s = Some v \<Longrightarrow> list_all (\<lambda>x. 0 \<le> x) v"
  unfolding nonneg_sq_def by blast

lemma nonneg_sq_get_state:
  assumes "nonneg_sq st" "exp_avg_sq (get_state st p) = Some v"
  shows "list_all (\<lambda>x. 0 \<le> x) v"
  using assms by (auto simp: nonneg_sq_def get_state_def empty_state_def split: option.splits)

lemma nonneg_zeros_like: "list_all (\<lambda>x. 0 \<le> x) (zeros_like t)"
  by (simp add: list_all_length)

lemma nonneg_full_like: "0 \<le> c \<Longrightarrow> list_all (\<lambda>x. 0 \<le> x) (full_like t c)"
  by (simp add: list_all_length)

lemma ema_nonneg:
  fixes b v x :: real
  assumes "0 \<le> b" "b \<le> 1" "0 \<le> v"
  shows "0 \<le> v * b + (1 - b) * (x * x)"
  using assms by (simp add: add_nonneg_nonneg)

lemma nonneg_AdaBound_second_moment:
  assumes "list_all (\<lambda>x. 0 \<le> x) v" "0 \<le> b" "b \<le> 1"
  shows "list_all (\<lambda>x. 0 \<le> x) (tensor_addcmul (tensor_mul v b) g g (1 - b))"
  using assms by (simp add: list_all_length ema_nonneg)

lemma yogi_nonneg:
  fixes c v q :: real
  assumes "- 1 \<le> c" "c \<le> 0" "0 \<le> v" "0 \<le> q"
  shows "0 \<le> v + c * (sgn (v - q) * q)"
proof -
  have le: "c * q \<le> 0" using assms by (simp add: mult_nonpos_nonneg)
  have "- 1 * q \<le> c * q" using assms by (intro mult_right_mono) simp_all
  then have ge: "- q \<le> c * q" by simp
  consider "v < q" | "v = q" | "q < v" by linarith
  then show ?thesis
  proof cases
    case 1
    then have "sgn (v - q) = - 1" by simp
    then show ?thesis using le assms(3) by simp
  next
    case 2
    then show ?thesis using assms by simp
  next
    case 3
    then have "sgn (v - q) = 1" by simp
    then show ?thesis using ge 3 by simp
  qed
qed

lemma nonneg_Yogi_second_moment:
  assumes "list_all (\<lambda>x. 0 \<le> x) v" "- 1 \<le> c" "c \<le> 0"
  shows "list_all (\<lambda>x. 0 \<le> x)
           (tensor_addcmul v (tensor_sign (tensor_sub v (tensor_times g g))) (tensor_times g g) c)"
  unfolding list_all_length
proof (intro allI impI)
  fix n
  assume "n < length (tensor_addcmul v (tensor_sign (tensor_sub v (tensor_times g g))) (tensor_times g g) c)"
  then have n: "n < length v" "n < length g" by simp_all
  have v: "0 \<le> v ! n" using assms(1) n by (simp add: list_all_length)
  have "0 \<le> v ! n + c * (sgn (v ! n - g ! n * g ! n) * (g ! n * g ! n))"
    using assms(2,3) v by (intro yogi_nonneg) simp_all
  then show "0 \<le> tensor_addcmul v (tensor_sign (tensor_sub v (tensor_times g g))) (tensor_times g g) c ! n"
    using n by simp
qed

lemma nonneg_sq_AdaBound_init_state:
  assumes "\<And>v. exp_avg_sq s = Some v \<Longrightarrow> list_all (\<lambda>x. 0 \<le> x) v"
    "exp_avg_sq (AdaBound_init_state g p s) = Some v"
  shows "list_all (\<lambda>x. 0 \<le> x) v"
  using assms by (auto simp: AdaBound_init_state_def Let_def nonneg_zeros_like split: if_splits)

lemma nonneg_sq_AdaBound_update:
  assumes st: "nonneg_sq st" and b: "0 \<le> snd (betas g)" "snd (betas g) \<le> 1"
  shows "nonneg_sq (snd (snd (AdaBound_update g sc p st)))"
proof -
  have s1: "list_all (\<lambda>x. 0 \<le> x) v"
    if "exp_avg_sq (AdaBound_init_state g p (get_state st p)) = Some v" for v
    using nonneg_sq_AdaBound_init_state [OF nonneg_sq_get_state [OF st] that] .
  show ?thesis
    using st s1 b
    by (auto simp: AdaBound_update_def Let_def nonneg_AdaBound_second_moment
        split: prod.splits option.splits sum.splits if_splits intro!: nonneg_sq_upd)
qed


lemma nonneg_sq_AdaBound_params:
  assumes "nonneg_sq st" "0 \<le> snd (betas g)" "snd (betas g) \<le> 1"
  shows "nonneg_sq (snd (snd (AdaBound_params g sc ps st)))"
  using assms
proof (induction ps arbitrary: st)
  case Nil
  then show ?case by simp
next
  case (Cons p ps)
  from nonneg_sq_AdaBound_update [OF Cons.prems, of sc p]
  have u: "nonneg_sq (snd (snd (AdaBound_update g sc p st)))" .
  show ?case
  proof (cases "AdaBound_update g sc p st")
    case (fields e p' st')
    with u have st': "nonneg_sq st'" by simp
    show ?thesis
    proof (cases e)
      case None
      from Cons.IH [OF st' Cons.prems(2,3)] show ?thesis
        using fields None by (auto split: prod.splits)
    next
      case (Some err)
      then show ?thesis using fields st' by simp
    qed
  qed
qed

lemma valid_group_betas: "valid_group g \<Longrightarrow> 0 \<le> snd (betas g) \<and> snd (betas g) \<le> 1"
  by (simp add: valid_group_def)

lemma valid_group_frame [simp]:
  "valid_group (g\<lparr>step := n\<rparr>) = valid_group g" "valid_group (g\<lparr>params := ps\<rparr>) = valid_group g"
  by (simp_all add: valid_group_def)

lemma AdaBound_group_inv:
  assumes "nonneg_sq st" "valid_group g"
  shows "nonneg_sq (snd (snd (AdaBound_group g b st))) \<and> valid_group (fst (snd (AdaBound_group g b st)))"
proof -
  let ?g1 = "g\<lparr>step := Some (next_step g)\<rparr>"
  have v: "0 \<le> snd (betas ?g1)" "snd (betas ?g1) \<le> 1"
    using valid_group_betas [OF assms(2)] by simp_all
  have P: "nonneg_sq st'" if "AdaBound_params ?g1 sc ps st = (e, ps', st')" for sc ps e ps' st'
    using nonneg_sq_AdaBound_params [OF assms(1) v, of sc ps] that by simp
  show ?thesis
    using assms by (auto simp: AdaBound_group_def Let_def split: sum.splits prod.splits intro: P)
qed

lemma AdaBound_groups_inv:
  assumes "nonneg_sq st" "list_all valid_group gs"
  shows "nonneg_sq (snd (snd (AdaBound_groups gs bs st)))
       \<and> list_all valid_group (fst (snd (AdaBound_groups gs bs st)))"
  using assms
proof (induction gs bs st rule: AdaBound_groups.induct)
  case (1 bs st)
  then show ?case by simp
next
  case (2 g gs st)
  then show ?case by simp
next
  case (3 g gs b bs st)
  from "3.prems" have vg: "valid_group g" and vgs: "list_all valid_group gs" by simp_all
  note G = AdaBound_group_inv [OF "3.prems"(1) vg, of b]
  show ?case
  proof (cases "AdaBound_group g b st")
    case (fields e g' st')
    with G have st': "nonneg_sq st'" and g': "valid_group g'" by simp_all
    show ?thesis
    proof (cases e)
      case None
      from "3.IH" [OF fields [symmetric] _ _ st' vgs] None
      show ?thesis using fields None g' by (auto split: prod.splits)
    next
      case (Some err)
      then show ?thesis using fields st' g' vgs by simp
    qed
  qed
qed


lemma AdaBound_step_fields:
  "state (snd (AdaBound_step a)) = snd (snd (AdaBound_groups (param_groups a) (base_lrs a) (state a)))"
  "param_groups (snd (AdaBound_step a)) = fst (snd (AdaBound_groups (param_groups a) (base_lrs a) (state a)))"
  by (simp_all add: AdaBound_step_def split: prod.splits)

lemma Yogi_step_fields:
  "state (snd (Yogi_step y)) = snd (snd (Yogi_groups (param_groups y) (maximize y) (state y)))"
  "param_groups (snd (Yogi_step y)) = fst (snd (Yogi_groups (param_groups y) (maximize y) (state y)))"
  by (simp_all add: Yogi_step_def split: prod.splits)

lemma backward_fields [simp]:
  "state (backward f opt) = state opt"
  "param_groups (backward f opt) = map (\<lambda>g. g\<lparr>params := map f (params g)\<rparr>) (param_groups opt)"
  by (simp_all add: backward_def)

lemma nonneg_sq_reset_params:
  "nonneg_sq st \<Longrightarrow> nonneg_sq (reset_params g ps st)"
proof (induction ps arbitrary: st)
  case Nil
  then show ?case by simp
next
  case (Cons p ps)
  have "nonneg_sq (st(pid p \<mapsto> reset_state g p (get_state st p)))"
    using Cons.prems
    by (intro nonneg_sq_upd) (auto simp: reset_state_def Let_def nonneg_zeros_like split: if_splits)
  then show ?case using Cons.IH by simp
qed

lemma nonneg_sq_reset_groups:
  "nonneg_sq st \<Longrightarrow> nonneg_sq (reset_groups gs st)"
  by (induction gs arbitrary: st) (simp_all add: nonneg_sq_reset_params)

lemma nonneg_sq_init_group:
  assumes "nonneg_sq st" "0 \<le> initial_accumulator g"
  shows "nonneg_sq (snd (init_group g ps st))"
  using assms
proof (induction ps arbitrary: st)
  case Nil
  then show ?case by simp
next
  case (Cons p ps)
  show ?case
  proof (cases "grad p")
    case None
    then show ?thesis using Cons by simp
  next
    case (Some gr)
    have "nonneg_sq (st(pid p \<mapsto> Yogi_init_state g gr (get_state st p)))"
      using Cons.prems nonneg_sq_get_state [OF Cons.prems(1), of p]
      by (intro nonneg_sq_upd) (auto simp: Yogi_init_state_def nonneg_full_like split: if_splits)
    from Cons.IH [OF this Cons.prems(2)]
    have ih: "nonneg_sq (snd (init_group g ps (st(pid p \<mapsto> Yogi_init_state g gr (get_state st p)))))" .
    show ?thesis
    proof (cases "is_sparse gr")
      case True
      then show ?thesis using Some Cons.prems(1) by simp
    next
      case False
      then have "init_group g (p # ps) st
          = init_group g ps (st(pid p \<mapsto> Yogi_init_state g gr (get_state st p)))"
        using Some by simp
      then show ?thesis using ih by (simp only:)
    qed
  qed
qed

lemma nonneg_sq_Yogi_update:
  assumes st: "nonneg_sq st" and b: "0 \<le> snd (betas g)" "snd (betas g) \<le> 1"
  shows "nonneg_sq (snd (snd (Yogi_update g mx ss bc2 p st)))"
  using st b nonneg_sq_get_state [OF st, of p]
  by (auto simp: Yogi_update_def Let_def
      split: prod.splits option.splits intro!: nonneg_sq_upd nonneg_Yogi_second_moment)

lemma nonneg_sq_Yogi_params:
  assumes "nonneg_sq st" "0 \<le> snd (betas g)" "snd (betas g) \<le> 1"
  shows "nonneg_sq (snd (snd (Yogi_params g mx ss bc2 ps st)))"
  using assms
proof (induction ps arbitrary: st)
  case Nil
  then show ?case by simp
next
  case (Cons p ps)
  from nonneg_sq_Yogi_update [OF Cons.prems, of mx ss bc2 p]
  have u: "nonneg_sq (snd (snd (Yogi_update g mx ss bc2 p st)))" .
  show ?case
  proof (cases "Yogi_update g mx ss bc2 p st")
    case (fields e p' st')
    with u have st': "nonneg_sq st'" by simp
    show ?thesis
    proof (cases e)
      case None
      from Cons.IH [OF st' Cons.prems(2,3)] show ?thesis
        using fields None by (auto split: prod.splits)
    next
      case (Some err)
      then show ?thesis using fields st' by simp
    qed
  qed
qed

lemma Yogi_group_inv:
  assumes "nonneg_sq st" "valid_group g" "0 \<le> initial_accumulator g"
  shows "nonneg_sq (snd (snd (Yogi_group g mx st)))
       \<and> valid_group (fst (snd (Yogi_group g mx st)))
       \<and> 0 \<le> initial_accumulator (fst (snd (Yogi_group g mx st)))"
proof -
  let ?g1 = "g\<lparr>step := Some (next_step g)\<rparr>"
  have v: "0 \<le> snd (betas ?g1)" "snd (betas ?g1) \<le> 1"
    using valid_group_betas [OF assms(2)] by simp_all
  have I: "nonneg_sq st0" if "init_group g ps st = (e, st0)" for ps e st0
    using nonneg_sq_init_group [OF assms(1,3), of ps] that by simp
  have P: "nonneg_sq st'"
    if "Yogi_params ?g1 mx ss bc2 ps st0 = (e, ps', st')" "nonneg_sq st0" for ss bc2 ps e ps' st' st0
    using nonneg_sq_Yogi_params [OF that(2) v, of mx ss bc2 ps] that(1) by simp
  show ?thesis
    using assms
    by (auto simp: Yogi_group_def Let_def split: sum.splits prod.splits option.splits
        dest: I intro: P)
qed

lemma Yogi_groups_inv:
  assumes "nonneg_sq st" "list_all (\<lambda>g. valid_group g \<and> 0 \<le> initial_accumulator g) gs"
  shows "nonneg_sq (snd (snd (Yogi_groups gs mx st)))
       \<and> list_all (\<lambda>g. valid_group g \<and> 0 \<le> initial_accumulator g) (fst (snd (Yogi_groups gs mx st)))"
  using assms
proof (induction gs arbitrary: st)
  case Nil
  then show ?case by simp
next
  case (Cons g gs)
  from Cons.prems have vg: "valid_group g" "0 \<le> initial_accumulator g"
    and vgs: "list_all (\<lambda>g. valid_group g \<and> 0 \<le> initial_accumulator g) gs" by simp_all
  note G = Yogi_group_inv [OF Cons.prems(1) vg, of mx]
  show ?case
  proof (cases "Yogi_group g mx st")
    case (fields e g' st')
    with G have st': "nonneg_sq st'" and g': "valid_group g'" "0 \<le> initial_accumulator g'"
      by simp_all
    show ?thesis
    proof (cases e)
      case None
      from Cons.IH [OF st' vgs] None
      show ?thesis using fields None g' by (auto split: prod.splits)
    next
      case (Some err)
      then show ?thesis using fields st' g' vgs by simp
    qed
  qed
qed

lemma AdaBound_run_inv:
  assumes "nonneg_sq (state a)" "list_all valid_group (param_groups a)"
  shows "nonneg_sq (state (AdaBound_run a cs)) \<and> list_all valid_group (param_groups (AdaBound_run a cs))"
  using assms
proof (induction a cs rule: AdaBound_run.induct)
  case (1 a)
  then show ?case by simp
next
  case (2 a f cs)
  have v: "list_all valid_group (param_groups (backward f a))"
    using "2.prems"(2) by (simp add: list_all_iff)
  have s: "nonneg_sq (state (backward f a))" using "2.prems"(1) by simp
  from AdaBound_groups_inv [OF s v, of "base_lrs (backward f a)"]
  have "nonneg_sq (state (snd (AdaBound_step (backward f a))))"
    "list_all valid_group (param_groups (snd (AdaBound_step (backward f a))))"
    by (simp_all only: AdaBound_step_fields)
  from "2.IH" [OF this] show ?case by simp
next
  case (3 a cs)
  have "nonneg_sq (state (AdaBound_reset a))" "list_all valid_group (param_groups (AdaBound_reset a))"
    using "3.prems" by (simp_all add: AdaBound_reset_def nonneg_sq_reset_groups)
  from "3.IH" [OF this] show ?case by simp
qed

lemma Yogi_run_inv:
  assumes "nonneg_sq (state y)"
    "list_all (\<lambda>g. valid_group g \<and> 0 \<le> initial_accumulator g) (param_groups y)"
  shows "nonneg_sq (state (Yogi_run y fs))
       \<and> list_all (\<lambda>g. valid_group g \<and> 0 \<le> initial_accumulator g) (param_groups (Yogi_run y fs))"
  using assms
proof (induction fs arbitrary: y)
  case Nil
  then show ?case by simp
next
  case (Cons f fs)
  have v: "list_all (\<lambda>g. valid_group g \<and> 0 \<le> initial_accumulator g) (param_groups (backward f y))"
    using Cons.prems(2) by (simp add: list_all_iff)
  have s: "nonneg_sq (state (backward f y))" using Cons.prems(1) by simp
  from Yogi_groups_inv [OF s v, of "maximize (backward f y)"]
  have "nonneg_sq (state (snd (Yogi_step (backward f y))))"
    "list_all (\<lambda>g. valid_group g \<and> 0 \<le> initial_accumulator g) (param_groups (snd (Yogi_step (backward f y))))"
    by (simp_all only: Yogi_step_fields)
  from Cons.IH [OF this] show ?case by simp
qed

text \<open>
  C5 (as amended). For an optimizer constructed with validated hyperparameters (betas in
  \<open>[0, 1)\<close>) and, for Yogi, a non-negative \<open>initial_accumulator\<close>, starting from the empty
  state dictionary: after every run, that is any sequence of training iterations with
  arbitrary parameter values and gradients (and, for AdaBound, of resets), whether or
  not a step raised, every second-moment accumulator of the state dictionary is
  elementwise non-negative.
\<close>

theorem second_moment_nonneg:
  "(list_all valid_group (param_groups a) \<and> state a = Map.empty
      \<longrightarrow> nonneg_sq (state (AdaBound_run a cs)))
 \<and> (list_all (\<lambda>g. valid_group g \<and> 0 \<le> initial_accumulator g) (param_groups y) \<and> state y = Map.empty
      \<longrightarrow> nonneg_sq (state (Yogi_run y fs)))"
proof (intro conjI impI)
  assume "list_all valid_group (param_groups a) \<and> state a = Map.empty"
  then have "nonneg_sq (state a)" "list_all valid_group (param_groups a)"
    by (simp_all add: nonneg_sq_def)
  from AdaBound_run_inv [OF this] show "nonneg_sq (state (AdaBound_run a cs))" by simp
next
  assume "list_all (\<lambda>g. valid_group g \<and> 0 \<le> initial_accumulator g) (param_groups y) \<and> state y = Map.empty"
  then have "nonneg_sq (state y)"
    "list_all (\<lambda>g. valid_group g \<and> 0 \<le> initial_accumulator g) (param_groups y)"
    by (simp_all add: nonneg_sq_def)
  from Yogi_run_inv [OF this] show "nonneg_sq (state (Yogi_run y fs))" by simp
qed


theorem second_moment_nonneg_counterexample:
  "list_all valid_group [(hyper [param0 None]) \<lparr>initial_accumulator := - 1\<rparr>]
   \<and> exp_avg_sq (the (state (Yogi_run
         \<lparr>param_groups = [(hyper [param0 None]) \<lparr>initial_accumulator := - 1\<rparr>],
          state = Map.empty, maximize = False\<rparr>
         [\<lambda>p. p\<lparr>grad := Some (dense [0])\<rparr>]) 0)) = Some [- 1]
   \<and> \<not> nonneg_sq (state (Yogi_run
         \<lparr>param_groups = [(hyper [param0 None]) \<lparr>initial_accumulator := - 1\<rparr>],
          state = Map.empty, maximize = False\<rparr>
         [\<lambda>p. p\<lparr>grad := Some (dense [0])\<rparr>]))"
proof -
  let ?y = "Yogi_run
         \<lparr>param_groups = [(hyper [param0 None]) \<lparr>initial_accumulator := - 1\<rparr>],
          state = Map.empty, maximize = False\<rparr>
         [\<lambda>p. p\<lparr>grad := Some (dense [0])\<rparr>]"
  have v: "list_all valid_group [(hyper [param0 None]) \<lparr>initial_accumulator := - 1\<rparr>]"
    by (simp add: valid_group_def hyper_def)
  have s: "state ?y 0 = Some \<lparr>state_step = None, exp_avg = Some [- (1 / 2)], exp_avg_sq = Some [- 1],
      max_exp_avg_sq = None\<rparr>"
    by (simp add: eval_defs)
  have "\<not> nonneg_sq (state ?y)"
  proof
    assume "nonneg_sq (state ?y)"
    from nonneg_sqD [OF this s] have "list_all (\<lambda>x. 0 \<le> x) [- 1 :: real]"
      by simp
    then show False by simp
  qed
  with v s show ?thesis by simp
qed

theorem second_moment_nonneg_witness:
  "list_all valid_group (param_groups (adabound0 None)) \<and> state (adabound0 None) = Map.empty
   \<and> nonneg_sq (state (AdaBound_run (adabound0 None) [Train (\<lambda>p. p\<lparr>grad := Some (dense [3])\<rparr>), Reset]))
   \<and> list_all (\<lambda>g. valid_group g \<and> 0 \<le> initial_accumulator g) (param_groups (yogi0 None))
   \<and> state (yogi0 None) = Map.empty
   \<and> nonneg_sq (state (Yogi_run (yogi0 None) [\<lambda>p. p\<lparr>grad := Some (dense [3])\<rparr>]))"
proof -
  have a: "list_all valid_group (param_groups (adabound0 None)) \<and> state (adabound0 None) = Map.empty"
    by (simp add: adabound0_def valid_group_def hyper_def)
  have y: "list_all (\<lambda>g. valid_group g \<and> 0 \<le> initial_accumulator g) (param_groups (yogi0 None))
      \<and> state (yogi0 None) = Map.empty"
    by (simp add: yogi0_def valid_group_def hyper_def)
  from second_moment_nonneg [of "adabound0 None" _ "yogi0 None"] a y
  show ?thesis by blast
qed

section \<open>Sparse gradients and lazily created state in Yogi\<close>

text \<open>AdaBound checks the layout and creates the state inside the parameter loop, on
  every step call.\<close>

lemma AdaBound_sparse_rejected:
  "grad p = Some gr \<Longrightarrow> is_sparse gr
     \<Longrightarrow> AdaBound_update g sc p st = (Some NoSparseGradientError, p, st)"
  by (simp add: AdaBound_update_def split: prod.splits)

lemma AdaBound_state_created:
  "st (pid p) = None
     \<Longrightarrow> AdaBound_init_state g p (get_state st p)
         = empty_state\<lparr>exp_avg := Some (zeros_like (data p)), exp_avg_sq := Some (zeros_like (data p)),
             max_exp_avg_sq := (if ams_bound g then Some (zeros_like (data p)) else None)\<rparr>"
  by (simp add: AdaBound_init_state_def get_state_def len_state_def empty_state_def)

text \<open>The parameter loop of Yogi never reads the layout of a gradient, so that once the
  group has a step counter no call raises \<open>NoSparseGradientError\<close>; and it never creates
  accumulators, so that a parameter without a state entry makes it raise \<open>KeyError\<close>.\<close>

lemma Yogi_update_no_layout_check:
  "Yogi_update g mx ss bc2 p st = (e, p', st') \<Longrightarrow> e \<noteq> Some NoSparseGradientError"
  by (auto simp: Yogi_update_def Let_def split: prod.splits option.splits)

lemma Yogi_params_no_layout_check:
  "Yogi_params g mx ss bc2 ps st = (e, ps', st') \<Longrightarrow> e \<noteq> Some NoSparseGradientError"
proof (induction ps arbitrary: st e ps' st')
  case Nil
  then show ?case by simp
next
  case (Cons p ps)
  obtain e1 p1 st1 where u: "Yogi_update g mx ss bc2 p st = (e1, p1, st1)"
    by (cases "Yogi_update g mx ss bc2 p st") auto
  show ?case
  proof (cases e1)
    case None
    obtain e2 ps2 st2 where r: "Yogi_params g mx ss bc2 ps st1 = (e2, ps2, st2)"
      by (cases "Yogi_params g mx ss bc2 ps st1") auto
    from Cons.prems u None r have "e = e2" by simp
    with Cons.IH [OF r] show ?thesis by simp
  next
    case (Some err)
    with Cons.prems u have "e = e1" by simp
    with Yogi_update_no_layout_check [OF u] show ?thesis by simp
  qed
qed

lemma Yogi_group_no_layout_check:
  assumes "step g = Some n" "Yogi_group g mx st = (e, g', st')"
  shows "e \<noteq> Some NoSparseGradientError"
  using assms
  by (auto simp: Yogi_group_def Let_def math_sqrt_def apply_adam_debias_def float_div_def
      split: prod.splits sum.splits if_splits dest: Yogi_params_no_layout_check)

lemma Yogi_update_missing_state:
  "grad p = Some gr \<Longrightarrow> st (pid p) = None \<Longrightarrow> fst (Yogi_update g mx ss bc2 p st) = Some KeyError"
  by (simp add: Yogi_update_def Let_def get_state_def empty_state_def split: prod.splits)

text \<open>
  C3. Yogi checks the layout of the gradients in \<open>init_group\<close> only, which runs while the
  group has no step counter. After a first step on a dense gradient (the counter is 1,
  the first moment is 2), a sparse gradient on the second step call raises nothing, and
  the first moment is mutated (it becomes 5/2).
\<close>

theorem Yogi_sparse_after_first_step:
  "fst (Yogi_step (yogi0 (Some (dense [3])))) = None
   \<and> map step (param_groups (snd (Yogi_step (yogi0 (Some (dense [3])))))) = [Some 1]
   \<and> map_option exp_avg (state (snd (Yogi_step (yogi0 (Some (dense [3]))))) 0) = Some (Some [2])
   \<and> fst (Yogi_step (set_grad (Some (sparse [3])) (snd (Yogi_step (yogi0 (Some (dense [3]))))))) = None
   \<and> map_option exp_avg
        (state (snd (Yogi_step (set_grad (Some (sparse [3])) (snd (Yogi_step (yogi0 (Some (dense [3])))))))) 0)
       = Some (Some [5 / 2])"
  by (simp add: eval_defs)

text \<open>
  C4. Yogi creates the state of a parameter in \<open>init_group\<close> only. A parameter with no
  gradient on the group's first step call gets no state entry; when its gradient is
  defined on the second step call, the update reads the missing key of the empty entry
  the dictionary has just created, and the step raises \<open>KeyError\<close>.
\<close>

theorem Yogi_late_gradient:
  "fst (Yogi_step (yogi0 None)) = None
   \<and> map step (param_groups (snd (Yogi_step (yogi0 None)))) = [Some 1]
   \<and> state (snd (Yogi_step (yogi0 None))) = Map.empty
   \<and> fst (Yogi_step (set_grad (Some (dense [3])) (snd (Yogi_step (yogi0 None))))) = Some KeyError
   \<and> state (snd (Yogi_step (set_grad (Some (dense [3])) (snd (Yogi_step (yogi0 None)))))) 0
       = Some empty_state"
  by (simp add: eval_defs)

section \<open>Resetting AdaBound\<close>

text \<open>A reset touches no group: neither a hyperparameter nor the step counter.\<close>

lemma AdaBound_reset_groups: "param_groups (AdaBound_reset a) = param_groups a"
  by (simp add: AdaBound_reset_def)

text \<open>
  C8. \<open>AdaBound.reset\<close> zeroes the key \<open>step\<close> of every per-parameter state, which the
  step never reads, and leaves the group's step counter as it is: after one step and a
  reset the group's counter is still 1, and the next step call runs at step count 2.
\<close>

theorem AdaBound_reset_keeps_group_step:
  "map step (param_groups (snd (AdaBound_step (adabound0 (Some (dense [3])))))) = [Some 1]
   \<and> map step (param_groups (AdaBound_reset (snd (AdaBound_step (adabound0 (Some (dense [3]))))))) = [Some 1]
   \<and> map_option state_step (state (AdaBound_reset (snd (AdaBound_step (adabound0 (Some (dense [3])))))) 0)
       = Some (Some 0)
   \<and> map step (param_groups (snd (AdaBound_step (AdaBound_reset (snd (AdaBound_step (adabound0 (Some (dense [3]))))))))) = [Some 2]"
  by (simp add: eval_defs)

section \<open>A step without gradients\<close>







lemma params_self [simp]: "g\<lparr>params := params g\<rparr> = g"
  by simp










section \<open>Determinism of a step\<close>




end
